theory Spec2Isabelle
  imports Complex_Main "HOL-Library.Sublist" "HOL-Library.Char_ord" "HOL-Library.List_Lexorder"
begin

section \<open>Go values, panics and the library functions the handlers use\<close>

text \<open>
  The argument bag of an invocation is Go's \<^verbatim>\<open>map[string]interface{}\<close> as decoded from
  JSON: a JSON number arrives as a float64 (a real here; NaN and the infinities are not JSON),
  a string as a byte sequence. A key that is absent reads as the nil interface, which is
  \<open>None\<close> here; a JSON null is \<open>Some JNull\<close> and behaves the same in every type assertion.
\<close>

datatype jvalue =
    JNull
  | JBool bool
  | JNumber real
  | JString string
  | JArray "jvalue list"
  | JObject "(string \<times> jvalue) list"

type_synonym Arguments = "string \<Rightarrow> jvalue option"

text \<open>
  A Go panic ends the handler without a result. A handler returns \<open>Inl p\<close> when it panics
  and \<open>Inr r\<close> when it returns the tool result \<open>r\<close>.
\<close>

datatype panic = InterfaceConversion | NilDereference

datatype CallToolResult = ToolResultText string | ToolResultError string

text \<open>The single-value type assertions \<^verbatim>\<open>x.(string)\<close> and \<^verbatim>\<open>x.(float64)\<close> panic on a miss.\<close>

definition assertString :: "jvalue option \<Rightarrow> panic + string" where
  "assertString v = (case v of Some (JString s) \<Rightarrow> Inr s | _ \<Rightarrow> Inl InterfaceConversion)"

definition assertFloat64 :: "jvalue option \<Rightarrow> panic + real" where
  "assertFloat64 v = (case v of Some (JNumber x) \<Rightarrow> Inr x | _ \<Rightarrow> Inl InterfaceConversion)"

text \<open>The comma-ok forms \<^verbatim>\<open>s, ok := x.(string)\<close> give the zero value and false on a miss.\<close>

definition commaOkString :: "jvalue option \<Rightarrow> string \<times> bool" where
  "commaOkString v = (case v of Some (JString s) \<Rightarrow> (s, True) | _ \<Rightarrow> ([], False))"

definition commaOkBool :: "jvalue option \<Rightarrow> bool \<times> bool" where
  "commaOkBool v = (case v of Some (JBool b) \<Rightarrow> (b, True) | _ \<Rightarrow> (False, False))"

text \<open>
  \<^verbatim>\<open>int(f)\<close> of a float64 drops the fraction (truncation toward zero). Go leaves the
  conversion of a value outside the range of int to the implementation; identifiers are
  taken inside that range and Go's int is the mathematical integer here.
\<close>

definition int_of_float64 :: "real \<Rightarrow> int" where
  "int_of_float64 x = (if 0 \<le> x then \<lfloor>x\<rfloor> else \<lceil>x\<rceil>)"

text \<open>The verb \<^verbatim>\<open>%d\<close> of fmt.Sprintf on an int: decimal digits, a minus sign when negative.\<close>

definition digitChar :: "nat \<Rightarrow> char" where
  "digitChar d = ''0123456789'' ! d"

fun natToString :: "nat \<Rightarrow> string" where
  "natToString n =
     (if n < 10 then [digitChar n] else natToString (n div 10) @ [digitChar (n mod 10)])"

declare natToString.simps [simp del]

definition Itoa :: "int \<Rightarrow> string" where
  "Itoa i = (if i < 0 then CHR ''-'' # natToString (nat (- i)) else natToString (nat i))"

subsection \<open>Package strings\<close>

text \<open>
  A Go string is a sequence of bytes, as \<^typ>\<open>string\<close> is. \<^verbatim>\<open>strings.Join(elems, sep)\<close>:
\<close>

fun Join :: "string list \<Rightarrow> string \<Rightarrow> string" where
  "Join [] sep = []"
| "Join [x] sep = x"
| "Join (x # y # ys) sep = x @ sep @ Join (y # ys) sep"

text \<open>
  \<^verbatim>\<open>strings.Split(s, sep)\<close> cuts \<open>s\<close> at every occurrence of \<open>sep\<close>, found from the left and
  not overlapping; \<open>piece\<close> holds the bytes read since the last cut. The handlers pass the
  separators \<^verbatim>\<open>","\<close> and \<^verbatim>\<open>"; "\<close> only; Go's splitting of a string into its UTF-8 sequences
  on an empty separator is left out (an empty separator cuts nowhere here).
\<close>

fun Split_from :: "string \<Rightarrow> string \<Rightarrow> string \<Rightarrow> string list" where
  "Split_from sep piece [] = [piece]"
| "Split_from sep piece (c # cs) =
     (if sep \<noteq> [] \<and> prefix sep (c # cs)
      then piece # Split_from sep [] (drop (length sep) (c # cs))
      else Split_from sep (piece @ [c]) cs)"

definition Split :: "string \<Rightarrow> string \<Rightarrow> string list" where
  "Split s sep = Split_from sep [] s"

text \<open>\<^verbatim>\<open>strings.Contains(s, substr)\<close>: \<open>substr\<close> occurs in \<open>s\<close> as a block of bytes.\<close>

fun Contains :: "string \<Rightarrow> string \<Rightarrow> bool" where
  "Contains [] substr = (substr = [])"
| "Contains (c # cs) substr = (prefix substr (c # cs) \<or> Contains cs substr)"

text \<open>
  \<^verbatim>\<open>strings.Replace(s, old, new, -1)\<close> for a non-empty \<open>old\<close>: every occurrence, from the left
  and not overlapping, gives way to \<open>new\<close>.
\<close>

definition Replace :: "string \<Rightarrow> string \<Rightarrow> string \<Rightarrow> string" where
  "Replace s old new = Join (Split s old) new"






section \<open>The remote service\<close>

record AzureDevOpsConfig =
  OrganizationURL :: string
  PersonalAccessToken :: string
  Project :: string

datatype Operation = OpAdd | OpReplace | OpRemove

text \<open>One operation of a JSON Patch document; an operation without a value carries \<open>JNull\<close>.\<close>

record JsonPatchOperation =
  Op :: Operation
  Path :: string
  Value :: jvalue

text \<open>
  The SDK's response types keep their pointer fields: a nil pointer is \<open>None\<close>, and the
  handlers dereference most of them unguarded.
\<close>

record WorkItemRelation =
  Rel :: "string option"
  Url :: "string option"

record WorkItem =
  WorkItem_Id :: "int option"
  WorkItem_Fields :: "(string \<Rightarrow> jvalue option) option"
  WorkItem_Relations :: "WorkItemRelation list option"

record WorkItemReference =
  Ref_Id :: "int option"

record WorkItemQueryResult =
  WorkItems :: "WorkItemReference list option"

text \<open>
  The work item tracking client. Each operation is a round trip to the remote service: it
  takes the state of the service, and returns either the error (its text, as \<^verbatim>\<open>%v\<close>
  prints it) or the decoded response, with the state after the call. The string after the
  identifier is the project of the request.
\<close>

record 's WorkItemClient =
  GetWorkItem :: "int \<Rightarrow> string \<Rightarrow> 's \<Rightarrow> (string + WorkItem) \<times> 's"
  UpdateWorkItem :: "int \<Rightarrow> string \<Rightarrow> JsonPatchOperation list \<Rightarrow> 's \<Rightarrow> (string + WorkItem) \<times> 's"
  CreateWorkItem :: "string \<Rightarrow> string \<Rightarrow> JsonPatchOperation list \<Rightarrow> 's \<Rightarrow> (string + WorkItem) \<times> 's"
  QueryByWiql :: "string \<Rightarrow> string \<Rightarrow> 's \<Rightarrow> (string + WorkItemQueryResult) \<times> 's"
  GetWorkItems :: "int list \<Rightarrow> 's \<Rightarrow> (string + WorkItem list option) \<times> 's"

text \<open>The requests a handler has issued, in order.\<close>

datatype Call =
    GetWorkItemCall int string
  | UpdateWorkItemCall int string "JsonPatchOperation list"
  | CreateWorkItemCall string string "JsonPatchOperation list"
  | QueryByWiqlCall string string
  | GetWorkItemsCall "int list"

type_synonym 's world = "'s \<times> Call list"

definition callGetWorkItem ::
  "'s WorkItemClient \<Rightarrow> int \<Rightarrow> string \<Rightarrow> 's world \<Rightarrow> (string + WorkItem) \<times> 's world" where
  "callGetWorkItem client i project w =
     (case GetWorkItem client i project (fst w) of
        (r, s') \<Rightarrow> (r, (s', snd w @ [GetWorkItemCall i project])))"

definition callUpdateWorkItem ::
  "'s WorkItemClient \<Rightarrow> int \<Rightarrow> string \<Rightarrow> JsonPatchOperation list \<Rightarrow> 's world
     \<Rightarrow> (string + WorkItem) \<times> 's world" where
  "callUpdateWorkItem client i project document w =
     (case UpdateWorkItem client i project document (fst w) of
        (r, s') \<Rightarrow> (r, (s', snd w @ [UpdateWorkItemCall i project document])))"

definition callCreateWorkItem ::
  "'s WorkItemClient \<Rightarrow> string \<Rightarrow> string \<Rightarrow> JsonPatchOperation list \<Rightarrow> 's world
     \<Rightarrow> (string + WorkItem) \<times> 's world" where
  "callCreateWorkItem client ty project document w =
     (case CreateWorkItem client ty project document (fst w) of
        (r, s') \<Rightarrow> (r, (s', snd w @ [CreateWorkItemCall ty project document])))"

definition callQueryByWiql ::
  "'s WorkItemClient \<Rightarrow> string \<Rightarrow> string \<Rightarrow> 's world \<Rightarrow> (string + WorkItemQueryResult) \<times> 's world" where
  "callQueryByWiql client query project w =
     (case QueryByWiql client query project (fst w) of
        (r, s') \<Rightarrow> (r, (s', snd w @ [QueryByWiqlCall query project])))"

definition callGetWorkItems ::
  "'s WorkItemClient \<Rightarrow> int list \<Rightarrow> 's world \<Rightarrow> (string + WorkItem list option) \<times> 's world" where
  "callGetWorkItems client ids w =
     (case GetWorkItems client ids (fst w) of
        (r, s') \<Rightarrow> (r, (s', snd w @ [GetWorkItemsCall ids])))"

section \<open>create\_work\_item (workitems.go, handleCreateWorkItem)\<close>

definition handleCreateWorkItem ::
  "AzureDevOpsConfig \<Rightarrow> 's WorkItemClient \<Rightarrow> Arguments \<Rightarrow> 's world
     \<Rightarrow> (panic + CallToolResult) \<times> 's world" where
  "handleCreateWorkItem config client args w =
     (case assertString (args ''type'') of
        Inl p \<Rightarrow> (Inl p, w)
      | Inr workItemType \<Rightarrow>
     (case assertString (args ''title'') of
        Inl p \<Rightarrow> (Inl p, w)
      | Inr title \<Rightarrow>
     (case assertString (args ''description'') of
        Inl p \<Rightarrow> (Inl p, w)
      | Inr description \<Rightarrow>
     (case commaOkString (args ''priority'') of
        (priority, hasPriority) \<Rightarrow>
     (let document =
            [\<lparr>Op = OpAdd, Path = ''/fields/System.Title'', Value = JString title\<rparr>,
             \<lparr>Op = OpAdd, Path = ''/fields/System.Description'', Value = JString description\<rparr>];
          document' =
            (if hasPriority
             then document @
               [\<lparr>Op = OpAdd, Path = ''/fields/Microsoft.VSTS.Common.Priority'',
                 Value = JString priority\<rparr>]
             else document)
      in (case callCreateWorkItem client workItemType (Project config) document' w of
            (Inl err, w') \<Rightarrow>
              (Inr (ToolResultError (''Failed to create work item: '' @ err)), w')
          | (Inr workItem, w') \<Rightarrow>
              (case WorkItem_Fields workItem of
                 None \<Rightarrow> (Inl NilDereference, w')
               | Some theFields \<Rightarrow>
                  (let extractedTitle =
                         (case theFields ''System.Title'' of Some (JString t) \<Rightarrow> t | _ \<Rightarrow> [])
                   in (case WorkItem_Id workItem of
                         None \<Rightarrow> (Inl NilDereference, w')
                       | Some i \<Rightarrow>
                           (Inr (ToolResultText
                              (''Created work item #'' @ Itoa i @ '': '' @ extractedTitle)),
                            w'))))))))))"

section \<open>update\_work\_item (workitems.go, handleUpdateWorkItem)\<close>

definition handleUpdateWorkItem ::
  "AzureDevOpsConfig \<Rightarrow> 's WorkItemClient \<Rightarrow> Arguments \<Rightarrow> 's world
     \<Rightarrow> (panic + CallToolResult) \<times> 's world" where
  "handleUpdateWorkItem config client args w =
     (case assertFloat64 (args ''id'') of
        Inl p \<Rightarrow> (Inl p, w)
      | Inr idNumber \<Rightarrow>
     (case assertString (args ''field'') of
        Inl p \<Rightarrow> (Inl p, w)
      | Inr field \<Rightarrow>
     (case assertString (args ''value'') of
        Inl p \<Rightarrow> (Inl p, w)
      | Inr newValue \<Rightarrow>
     (case callUpdateWorkItem client (int_of_float64 idNumber) (Project config)
             [\<lparr>Op = OpReplace, Path = ''/fields/'' @ field, Value = JString newValue\<rparr>] w of
        (Inl err, w') \<Rightarrow>
          (Inr (ToolResultError (''Failed to update work item: '' @ err)), w')
      | (Inr workItem, w') \<Rightarrow>
          (case WorkItem_Id workItem of
             None \<Rightarrow> (Inl NilDereference, w')
           | Some i \<Rightarrow> (Inr (ToolResultText (''Updated work item #'' @ Itoa i)), w'))))))"

section \<open>query\_work\_items (workitems.go, handleQueryWorkItems)\<close>

text \<open>The loop that collects \<^verbatim>\<open>*ref.Id\<close> of the references it is given.\<close>

fun derefIds :: "WorkItemReference list \<Rightarrow> panic + int list" where
  "derefIds [] = Inr []"
| "derefIds (r # rs) =
     (case Ref_Id r of
        None \<Rightarrow> Inl NilDereference
      | Some i \<Rightarrow> (case derefIds rs of Inl p \<Rightarrow> Inl p | Inr ids \<Rightarrow> Inr (i # ids)))"

text \<open>
  The verb \<^verbatim>\<open>%v\<close> on a decoded field value prints a string as it is; how fmt prints the
  other kinds is the parameter \<open>other\<close>.
\<close>

definition formatValue :: "(jvalue \<Rightarrow> string) \<Rightarrow> jvalue \<Rightarrow> string" where
  "formatValue other v = (case v of JString s \<Rightarrow> s | _ \<Rightarrow> other v)"

definition fieldText :: "(jvalue \<Rightarrow> string) \<Rightarrow> (string \<Rightarrow> jvalue option) option \<Rightarrow> string \<Rightarrow> string" where
  "fieldText other theFields name =
     (case theFields of
        None \<Rightarrow> []
      | Some m \<Rightarrow> (case m name of None \<Rightarrow> [] | Some v \<Rightarrow> formatValue other v))"

fun detailLines :: "(jvalue \<Rightarrow> string) \<Rightarrow> WorkItem list \<Rightarrow> panic + string list" where
  "detailLines other [] = Inr []"
| "detailLines other (item # items) =
     (case WorkItem_Id item of
        None \<Rightarrow> Inl NilDereference
      | Some i \<Rightarrow>
         (let title = fieldText other (WorkItem_Fields item) ''System.Title'';
              state = fieldText other (WorkItem_Fields item) ''System.State'';
              workItemType = fieldText other (WorkItem_Fields item) ''System.WorkItemType''
          in (case detailLines other items of
                Inl p \<Rightarrow> Inl p
              | Inr ls \<Rightarrow>
                  Inr ((''ID: '' @ Itoa i @ '' - ['' @ workItemType @ ''] '' @ title
                          @ '' ('' @ state @ '')'') # ls))))"

fun fallbackLines :: "WorkItemReference list \<Rightarrow> panic + string list" where
  "fallbackLines [] = Inr []"
| "fallbackLines (r # rs) =
     (case Ref_Id r of
        None \<Rightarrow> Inl NilDereference
      | Some i \<Rightarrow>
         (case fallbackLines rs of Inl p \<Rightarrow> Inl p | Inr ls \<Rightarrow> Inr ((''ID: '' @ Itoa i) # ls)))"

definition maxDetailsToFetch :: nat where
  "maxDetailsToFetch = 20"

definition handleQueryWorkItems ::
  "AzureDevOpsConfig \<Rightarrow> 's WorkItemClient \<Rightarrow> (jvalue \<Rightarrow> string) \<Rightarrow> Arguments \<Rightarrow> 's world
     \<Rightarrow> (panic + CallToolResult) \<times> 's world" where
  "handleQueryWorkItems config client other args w =
     (case assertString (args ''query'') of
        Inl p \<Rightarrow> (Inl p, w)
      | Inr query \<Rightarrow>
     (case callQueryByWiql client query (Project config) w of
        (Inl err, w1) \<Rightarrow> (Inr (ToolResultError (''Failed to query work items: '' @ err)), w1)
      | (Inr queryResult, w1) \<Rightarrow>
     (case WorkItems queryResult of
        None \<Rightarrow> (Inr (ToolResultText ''No work items found matching the query.''), w1)
      | Some refs \<Rightarrow>
          if length refs = 0
          then (Inr (ToolResultText ''No work items found matching the query.''), w1)
          else
           (let count = (if length refs > maxDetailsToFetch then maxDetailsToFetch else length refs)
            in (case derefIds (take count refs) of
                  Inl p \<Rightarrow> (Inl p, w1)
                | Inr ids \<Rightarrow>
                    if length ids > 0
                    then
                     (let header =
                            [''Found '' @ Itoa (int (length refs))
                               @ '' work items. Showing details for the first ''
                               @ Itoa (int count) @ '':'', []]
                      in (case callGetWorkItems client ids w1 of
                            (Inr (Some (item # items)), w2) \<Rightarrow>
                              (case detailLines other (item # items) of
                                 Inl p \<Rightarrow> (Inl p, w2)
                               | Inr ls \<Rightarrow>
                                   (Inr (ToolResultText (Join (header @ ls) [CHR 0x0A])), w2))
                          | (_, w2) \<Rightarrow>
                              (case fallbackLines refs of
                                 Inl p \<Rightarrow> (Inl p, w2)
                               | Inr ls \<Rightarrow>
                                   (Inr (ToolResultText (Join (header @ ls) [CHR 0x0A])), w2))))
                    else (Inr (ToolResultText (Join [] [CHR 0x0A])), w1))))))"

section \<open>manage\_work\_item\_relations (workitems.go, handleManageWorkItemRelations)\<close>

definition relationTypeMap :: "string \<Rightarrow> string option" where
  "relationTypeMap =
     map_of [(''parent'', ''System.LinkTypes.Hierarchy-Reverse''),
             (''child'', ''System.LinkTypes.Hierarchy-Forward''),
             (''related'', ''System.LinkTypes.Related'')]"

text \<open>
  The scan of the relation array: \<open>i\<close> is the position of the head of the list. It stops at
  the first entry whose type and target URL both match, and panics on a nil pointer it
  has to read on the way.
\<close>

fun findRelation :: "string \<Rightarrow> string \<Rightarrow> nat \<Rightarrow> WorkItemRelation list \<Rightarrow> panic + nat option" where
  "findRelation azureRelationType targetUrl i [] = Inr None"
| "findRelation azureRelationType targetUrl i (relation # rest) =
     (case Rel relation of
        None \<Rightarrow> Inl NilDereference
      | Some rel \<Rightarrow>
          if rel = azureRelationType
          then (case Url relation of
                  None \<Rightarrow> Inl NilDereference
                | Some u \<Rightarrow>
                    if u = targetUrl then Inr (Some i)
                    else findRelation azureRelationType targetUrl (Suc i) rest)
          else findRelation azureRelationType targetUrl (Suc i) rest)"

definition handleManageWorkItemRelations ::
  "AzureDevOpsConfig \<Rightarrow> 's WorkItemClient \<Rightarrow> Arguments \<Rightarrow> 's world
     \<Rightarrow> (panic + CallToolResult) \<times> 's world" where
  "handleManageWorkItemRelations config client args w =
     (case assertFloat64 (args ''source_id'') of
        Inl p \<Rightarrow> (Inl p, w)
      | Inr sourceNumber \<Rightarrow>
     (case assertFloat64 (args ''target_id'') of
        Inl p \<Rightarrow> (Inl p, w)
      | Inr targetNumber \<Rightarrow>
     (case commaOkString (args ''relation_type'') of
        (relationType, ok) \<Rightarrow>
     if \<not> ok then (Inr (ToolResultError ''Invalid relation_type''), w)
     else
     (case assertString (args ''operation'') of
        Inl p \<Rightarrow> (Inl p, w)
      | Inr operation \<Rightarrow>
     (let sourceID = int_of_float64 sourceNumber;
          targetID = int_of_float64 targetNumber;
          azureRelationType = (case relationTypeMap relationType of None \<Rightarrow> [] | Some t \<Rightarrow> t);
          targetUrl = OrganizationURL config @ ''/_apis/wit/workItems/'' @ Itoa targetID;
          finish = (\<lambda>ops w1.
            (case callUpdateWorkItem client sourceID (Project config) ops w1 of
               (Inl err, w2) \<Rightarrow>
                 (Inr (ToolResultError (''Failed to update work item relations: '' @ err)), w2)
             | (Inr _, w2) \<Rightarrow>
                 (Inr (ToolResultText
                    (''Successfully '' @ operation @ ''d '' @ relationType @ '' relationship'')),
                  w2)))
      in if operation = ''add''
         then finish
                [\<lparr>Op = OpAdd, Path = ''/relations/-'',
                  Value = JObject
                    [(''rel'', JString azureRelationType),
                     (''url'', JString targetUrl),
                     (''attributes'', JObject [(''comment'', JString ''Added via MCP'')])]\<rparr>]
                w
         else
          (case callGetWorkItem client sourceID (Project config) w of
             (Inl err, w1) \<Rightarrow> (Inr (ToolResultError (''Failed to get work item: '' @ err)), w1)
           | (Inr workItem, w1) \<Rightarrow>
               (case WorkItem_Relations workItem of
                  None \<Rightarrow> (Inr (ToolResultError ''Work item has no relations''), w1)
                | Some relations \<Rightarrow>
                    (case findRelation azureRelationType targetUrl 0 relations of
                       Inl p \<Rightarrow> (Inl p, w1)
                     | Inr None \<Rightarrow> (Inr (ToolResultError ''Specified relation not found''), w1)
                     | Inr (Some i) \<Rightarrow>
                         finish
                           [\<lparr>Op = OpRemove, Path = ''/relations/'' @ Itoa (int i),
                             Value = JNull\<rparr>]
                           w1))))))))"

section \<open>batch\_update\_work\_items (workitems.go, handleBatchUpdateWorkItems)\<close>

record Update =
  Update_ID :: int
  Update_Field :: string
  Update_Value :: string

definition fieldMap :: "string \<Rightarrow> string option" where
  "fieldMap =
     map_of [(''Title'', ''System.Title''),
             (''Description'', ''System.Description''),
             (''State'', ''System.State''),
             (''Priority'', ''Microsoft.VSTS.Common.Priority'')]"

text \<open>The loop over the updates; \<open>results\<close> is the transcript so far.\<close>

fun batchUpdateLoop ::
  "AzureDevOpsConfig \<Rightarrow> 's WorkItemClient \<Rightarrow> Update list \<Rightarrow> string list \<Rightarrow> 's world
     \<Rightarrow> (panic + string list) \<times> 's world" where
  "batchUpdateLoop config client [] results w = (Inr results, w)"
| "batchUpdateLoop config client (update # updates) results w =
     (case fieldMap (Update_Field update) of
        None \<Rightarrow>
          batchUpdateLoop config client updates
            (results @ [''Invalid field for #'' @ Itoa (Update_ID update) @ '': ''
                          @ Update_Field update]) w
      | Some systemField \<Rightarrow>
          (case callUpdateWorkItem client (Update_ID update) (Project config)
                  [\<lparr>Op = OpReplace, Path = ''/fields/'' @ systemField,
                    Value = JString (Update_Value update)\<rparr>] w of
             (Inl err, w') \<Rightarrow>
               batchUpdateLoop config client updates
                 (results @ [''Failed to update #'' @ Itoa (Update_ID update) @ '': '' @ err]) w'
           | (Inr workItem, w') \<Rightarrow>
               (case WorkItem_Id workItem of
                  None \<Rightarrow> (Inl NilDereference, w')
                | Some i \<Rightarrow>
                    batchUpdateLoop config client updates
                      (results @ [''Updated work item #'' @ Itoa i]) w')))"

text \<open>
  \<open>unmarshal\<close> is \<^verbatim>\<open>json.Unmarshal\<close> into the slice of updates: the error text, or the
  decoded updates.
\<close>

definition handleBatchUpdateWorkItems ::
  "AzureDevOpsConfig \<Rightarrow> 's WorkItemClient \<Rightarrow> (string \<Rightarrow> string + Update list) \<Rightarrow> Arguments
     \<Rightarrow> 's world \<Rightarrow> (panic + CallToolResult) \<times> 's world" where
  "handleBatchUpdateWorkItems config client unmarshal args w =
     (case assertString (args ''updates'') of
        Inl p \<Rightarrow> (Inl p, w)
      | Inr updatesJSON \<Rightarrow>
     (case unmarshal updatesJSON of
        Inl err \<Rightarrow> (Inr (ToolResultError (''Invalid JSON format: '' @ err)), w)
      | Inr updates \<Rightarrow>
     (case batchUpdateLoop config client updates [] w of
        (Inl p, w') \<Rightarrow> (Inl p, w')
      | (Inr results, w') \<Rightarrow> (Inr (ToolResultText (Join results [CHR 0x0A])), w'))))"

section \<open>manage\_work\_item\_tags (tag.go, handleManageWorkItemTags)\<close>





section \<open>The choice of a wiki (wiki.go)\<close>

text \<open>
  \<^verbatim>\<open>getWikisForProject\<close> returns a slice of pointers to wikis whose name and identifier are
  pointers again. The identifier is a UUID; its type is left open.
\<close>

record 'u Wiki =
  Wiki_Id :: "'u option"
  Wiki_Name :: "string option"

text \<open>
  The loop \<^verbatim>\<open>for _, wiki := range wikis { if cond(*wiki.Name) { wikiId = *wiki.Id; break } }\<close>
  of the four handlers: the identifier of the first wiki whose name satisfies \<open>cond\<close>, if any.
\<close>

fun scanWikis :: "(string \<Rightarrow> bool) \<Rightarrow> 'u Wiki option list \<Rightarrow> panic + 'u option" where
  "scanWikis cond [] = Inr None"
| "scanWikis cond (w # ws) =
     (case w of
        None \<Rightarrow> Inl NilDereference
      | Some wiki \<Rightarrow>
          (case Wiki_Name wiki of
             None \<Rightarrow> Inl NilDereference
           | Some name \<Rightarrow>
               if cond name
               then (case Wiki_Id wiki of None \<Rightarrow> Inl NilDereference | Some i \<Rightarrow> Inr (Some i))
               else scanWikis cond ws))"

text \<open>
  \<^verbatim>\<open>wikiId := *wikis[0].Id\<close> followed by the loop. The result is a panic, the text of the
  Error result for an empty list, or the chosen identifier.
\<close>

definition chooseWiki :: "(string \<Rightarrow> bool) \<Rightarrow> 'u Wiki option list \<Rightarrow> panic + (string + 'u)" where
  "chooseWiki cond wikis =
     (case wikis of
        [] \<Rightarrow> Inr (Inl ''No wikis found for this project'')
      | first # _ \<Rightarrow>
          (case first of
             None \<Rightarrow> Inl NilDereference
           | Some firstWiki \<Rightarrow>
               (case Wiki_Id firstWiki of
                  None \<Rightarrow> Inl NilDereference
                | Some wikiId \<Rightarrow>
                    (case scanWikis cond wikis of
                       Inl p \<Rightarrow> Inl p
                     | Inr None \<Rightarrow> Inr (Inr wikiId)
                     | Inr (Some i) \<Rightarrow> Inr (Inr i)))))"

text \<open>handleManageWikiPage, handleListWikiPages and handleSearchWiki, after the wikis are fetched:\<close>

definition handleManageWikiPage_wikiId ::
  "AzureDevOpsConfig \<Rightarrow> 'u Wiki option list \<Rightarrow> panic + (string + 'u)" where
  "handleManageWikiPage_wikiId config wikis =
     chooseWiki (\<lambda>name. Contains name (Project config)) wikis"

text \<open>
  handleGetWikiPage logs the name and the identifier of every wiki before it looks at the
  length of the list, then compares in lower case. \<open>ToLower\<close> is \<^verbatim>\<open>strings.ToLower\<close>, whose
  Unicode case mapping is a parameter here.
\<close>

definition loggable :: "'u Wiki option \<Rightarrow> bool" where
  "loggable w =
     (case w of None \<Rightarrow> False | Some wiki \<Rightarrow> Wiki_Name wiki \<noteq> None \<and> Wiki_Id wiki \<noteq> None)"

definition handleGetWikiPage_wikiId ::
  "(string \<Rightarrow> string) \<Rightarrow> AzureDevOpsConfig \<Rightarrow> 'u Wiki option list \<Rightarrow> panic + (string + 'u)" where
  "handleGetWikiPage_wikiId ToLower config wikis =
     (if \<not> list_all loggable wikis then Inl NilDereference
      else
       (let projectName = ToLower (Replace (Project config) '' '' [])
        in chooseWiki
             (\<lambda>name. Contains (ToLower name) projectName
                 \<or> Contains (ToLower name) ''documentation'')
             wikis))"

text \<open>\<^verbatim>\<open>strings.ToLower\<close> on the bytes of ASCII; the other bytes stay.\<close>

definition ToLowerASCII :: "string \<Rightarrow> string" where
  "ToLowerASCII s =
     map (\<lambda>c. if CHR ''A'' \<le> c \<and> c \<le> CHR ''Z'' then char_of (of_char c + (32::nat)) else c) s"

section \<open>get\_current\_sprint and get\_sprints\<close>

subsection \<open>Package net/url\<close>

text \<open>
  \<^verbatim>\<open>url.QueryEscape\<close>: letters, digits, hyphen, underscore, period and tilde stay; a space
  becomes a plus sign; every other byte becomes a percent sign and two upper case hex digits.
\<close>

definition unreserved :: "char \<Rightarrow> bool" where
  "unreserved c =
     ((CHR ''a'' \<le> c \<and> c \<le> CHR ''z'') \<or> (CHR ''A'' \<le> c \<and> c \<le> CHR ''Z'')
      \<or> (CHR ''0'' \<le> c \<and> c \<le> CHR ''9'') \<or> c \<in> set ''-_.~'')"

definition escapeByte :: "char \<Rightarrow> string" where
  "escapeByte c =
     (if unreserved c then [c]
      else if c = CHR '' '' then ''+''
      else [CHR ''%'', ''0123456789ABCDEF'' ! (of_char c div 16),
            ''0123456789ABCDEF'' ! (of_char c mod 16)])"

definition QueryEscape :: "string \<Rightarrow> string" where
  "QueryEscape s = concat (map escapeByte s)"

text \<open>
  \<^verbatim>\<open>url.Values\<close> as the pairs added to it, in the order of the \<^verbatim>\<open>Add\<close> calls.
  \<^verbatim>\<open>Encode\<close> writes the keys in sorted order and the values of one key in the order they
  were added.
\<close>

definition Encode :: "(string \<times> string) list \<Rightarrow> string" where
  "Encode queryParams =
     Join (map (\<lambda>(k, v). QueryEscape k @ ''='' @ QueryEscape v) (sort_key fst queryParams)) ''&''"

subsection \<open>The handlers (unnamed/part\_000)\<close>

record HttpResponse =
  StatusCode :: int
  Body :: string

record 't Sprint =
  Sprint_Name :: string
  StartDate :: "'t"
  EndDate :: "'t"

text \<open>
  What the handlers use of net/http, encoding/json and time: \<open>NewRequest\<close> gives the error of
  \<^verbatim>\<open>http.NewRequest("GET", url, nil)\<close> if there is one; \<open>Do\<close> sends a GET request to the URL
  with the basic-auth password given, and returns the transport error or the response;
  \<open>DecodeSprints\<close> decodes the body into the list under \<^verbatim>\<open>value\<close>; \<open>FormatDate\<close> is
  \<^verbatim>\<open>Format("2006-01-02")\<close>.
\<close>

record ('s, 't) Http =
  NewRequest :: "string \<Rightarrow> string option"
  Do :: "string \<Rightarrow> string \<Rightarrow> 's \<Rightarrow> (string + HttpResponse) \<times> 's"
  DecodeSprints :: "string \<Rightarrow> string + 't Sprint list"
  FormatDate :: "'t \<Rightarrow> string"

text \<open>The GET requests sent so far, each as its URL and password.\<close>

type_synonym 's httpWorld = "'s \<times> (string \<times> string) list"

definition callDo ::
  "('s, 't) Http \<Rightarrow> string \<Rightarrow> string \<Rightarrow> 's httpWorld \<Rightarrow> (string + HttpResponse) \<times> 's httpWorld" where
  "callDo http url password w =
     (case Do http url password (fst w) of
        (r, s') \<Rightarrow> (r, (s', snd w @ [(url, password)])))"

definition handleGetCurrentSprint ::
  "AzureDevOpsConfig \<Rightarrow> ('s, 't) Http \<Rightarrow> Arguments \<Rightarrow> 's httpWorld
     \<Rightarrow> CallToolResult \<times> 's httpWorld" where
  "handleGetCurrentSprint config http args w =
     (case commaOkString (args ''team'') of
        (team, _) \<Rightarrow>
     (let team' = (if team = [] then Project config @ '' Team'' else team);
          baseURL = OrganizationURL config @ ''/'' @ Project config
                      @ ''/_apis/work/teamsettings/iterations'';
          queryParams = [(''$timeframe'', ''current''), (''api-version'', ''7.2-preview'')];
          fullURL = baseURL @ ''?'' @ Encode queryParams
      in (case NewRequest http fullURL of
            Some err \<Rightarrow> (ToolResultError (''Failed to create request: '' @ err), w)
          | None \<Rightarrow>
              (case callDo http fullURL (PersonalAccessToken config) w of
                 (Inl err, w') \<Rightarrow>
                   (ToolResultError (''Failed to get current sprint: '' @ err), w')
               | (Inr resp, w') \<Rightarrow>
                   if StatusCode resp \<noteq> 200
                   then (ToolResultError
                           (''Failed to get current sprint. Status: '' @ Itoa (StatusCode resp)),
                         w')
                   else
                    (case DecodeSprints http (Body resp) of
                       Inl err \<Rightarrow> (ToolResultError (''Failed to parse response: '' @ err), w')
                     | Inr [] \<Rightarrow> (ToolResultText ''No active sprint found'', w')
                     | Inr (sprint # _) \<Rightarrow>
                         (ToolResultText
                            (''Current Sprint: '' @ Sprint_Name sprint
                               @ [CHR 0x0A] @ ''Start Date: '' @ FormatDate http (StartDate sprint)
                               @ [CHR 0x0A] @ ''End Date: '' @ FormatDate http (EndDate sprint)),
                          w'))))))"

definition handleGetSprints ::
  "AzureDevOpsConfig \<Rightarrow> ('s, 't) Http \<Rightarrow> Arguments \<Rightarrow> 's httpWorld
     \<Rightarrow> CallToolResult \<times> 's httpWorld" where
  "handleGetSprints config http args w =
     (case commaOkString (args ''team'') of
        (team, _) \<Rightarrow>
     (case commaOkBool (args ''include_completed'') of
        (includeCompleted, _) \<Rightarrow>
     (let team' = (if team = [] then Project config @ '' Team'' else team);
          baseURL = OrganizationURL config @ ''/'' @ Project config
                      @ ''/_apis/work/teamsettings/iterations'';
          queryParams =
            (if \<not> includeCompleted then [(''$timeframe'', ''current,future'')] else [])
              @ [(''api-version'', ''7.2-preview'')];
          fullURL = baseURL @ ''?'' @ Encode queryParams
      in (case NewRequest http fullURL of
            Some err \<Rightarrow> (ToolResultError (''Failed to create request: '' @ err), w)
          | None \<Rightarrow>
              (case callDo http fullURL (PersonalAccessToken config) w of
                 (Inl err, w') \<Rightarrow> (ToolResultError (''Failed to get sprints: '' @ err), w')
               | (Inr resp, w') \<Rightarrow>
                   if StatusCode resp \<noteq> 200
                   then (ToolResultError
                           (''Failed to get sprints. Status: '' @ Itoa (StatusCode resp)), w')
                   else
                    (case DecodeSprints http (Body resp) of
                       Inl err \<Rightarrow> (ToolResultError (''Failed to parse response: '' @ err), w')
                     | Inr sprints \<Rightarrow>
                        (let results =
                               map (\<lambda>sprint. ''Sprint: '' @ Sprint_Name sprint
                                      @ [CHR 0x0A] @ ''Start: '' @ FormatDate http (StartDate sprint)
                                      @ [CHR 0x0A] @ ''End: '' @ FormatDate http (EndDate sprint)
                                      @ [CHR 0x0A] @ ''---'') sprints
                         in if length results = 0
                            then (ToolResultText ''No sprints found'', w')
                            else (ToolResultText (Join results [CHR 0x0A]), w'))))))))"

section \<open>A remote service for the examples\<close>

text \<open>
  A small service to run the handlers on: its state is the next free identifier; the work
  items below it exist, each with the same fields and relations; creating and updating
  echo the fields of the Patch document.
\<close>

definition mockFields :: "JsonPatchOperation list \<Rightarrow> string \<Rightarrow> jvalue option" where
  "mockFields document = map_of (map (\<lambda>x. (drop 8 (Path x), Value x)) document)"

definition mockConfig :: AzureDevOpsConfig where
  "mockConfig =
     \<lparr>OrganizationURL = ''https://dev.azure.com/acme'', PersonalAccessToken = ''pat'',
      Project = ''Apollo''\<rparr>"

definition mockItem :: "int \<Rightarrow> WorkItem" where
  "mockItem i =
     \<lparr>WorkItem_Id = Some i,
      WorkItem_Fields = Some (map_of
        [(''System.Title'', JString ''Item''), (''System.State'', JString ''Active''),
         (''System.WorkItemType'', JString ''Task''), (''System.Tags'', JString ''alpha; beta'')]),
      WorkItem_Relations = Some
        [\<lparr>Rel = Some ''System.LinkTypes.Related'',
          Url = Some ''https://dev.azure.com/acme/_apis/wit/workItems/9''\<rparr>,
         \<lparr>Rel = Some ''System.LinkTypes.Hierarchy-Forward'',
          Url = Some ''https://dev.azure.com/acme/_apis/wit/workItems/9''\<rparr>,
         \<lparr>Rel = Some ''System.LinkTypes.Hierarchy-Forward'',
          Url = Some ''https://dev.azure.com/acme/_apis/wit/workItems/9''\<rparr>]\<rparr>"

definition mockClient :: "int WorkItemClient" where
  "mockClient =
     \<lparr>GetWorkItem = (\<lambda>i project n.
        (if 0 < i \<and> i < n then Inr (mockItem i) else Inl ''work item not found'', n)),
      UpdateWorkItem = (\<lambda>i project document n.
        (if 0 < i \<and> i < n
         then Inr \<lparr>WorkItem_Id = Some i, WorkItem_Fields = Some (mockFields document),
                   WorkItem_Relations = None\<rparr>
         else Inl ''work item not found'', n)),
      CreateWorkItem = (\<lambda>ty project document n.
        (Inr \<lparr>WorkItem_Id = Some n, WorkItem_Fields = Some (mockFields document),
               WorkItem_Relations = None\<rparr>, n + 1)),
      QueryByWiql = (\<lambda>query project n.
        (Inr \<lparr>WorkItems = Some (map (\<lambda>i. \<lparr>Ref_Id = Some i\<rparr>) [1..n - 1])\<rparr>, n)),
      GetWorkItems = (\<lambda>ids n. (Inr (Some (map mockItem ids)), n))\<rparr>"

definition bugArguments :: Arguments where
  "bugArguments =
     [''type'' \<mapsto> JString ''Bug'', ''title'' \<mapsto> JString ''Login fails'',
      ''description'' \<mapsto> JString ''NPE on null token'']"


definition mockHttp :: "(nat, string) Http" where
  "mockHttp =
     \<lparr>NewRequest = (\<lambda>url. None),
      Do = (\<lambda>url password n. (Inr \<lparr>StatusCode = 200, Body = ''{}''\<rparr>, Suc n)),
      DecodeSprints = (\<lambda>body.
        Inr [\<lparr>Sprint_Name = ''Sprint 7'', StartDate = ''2025-03-03'', EndDate = ''2025-03-14''\<rparr>]),
      FormatDate = (\<lambda>d. d)\<rparr>"

text \<open>A wiki as the service returns it: the pointers to it, to its name and to its identifier set.\<close>

definition wikiOf :: "string \<times> 'u \<Rightarrow> 'u Wiki option" where
  "wikiOf p = Some \<lparr>Wiki_Id = Some (snd p), Wiki_Name = Some (fst p)\<rparr>"

definition landerConfig :: AzureDevOpsConfig where
  "landerConfig =
     \<lparr>OrganizationURL = ''https://dev.azure.com/acme'', PersonalAccessToken = ''pat'',
      Project = ''Apollo Lander''\<rparr>"

definition landerWikis :: "(string \<times> nat) list" where
  "landerWikis =
     [(''Team Handbook'', 1), (''apollolander notes'', 2), (''Apollo Lander Wiki'', 3)]"

text \<open>A decoder for the examples: the batch it is given, whatever the text.\<close>

definition mockUnmarshal :: "Update list \<Rightarrow> string \<Rightarrow> string + Update list" where
  "mockUnmarshal updates updatesJSON = Inr updates"

definition mockBatch :: "Update list" where
  "mockBatch =
     [\<lparr>Update_ID = 3, Update_Field = ''State'', Update_Value = ''Closed''\<rparr>,
      \<lparr>Update_ID = 4, Update_Field = ''Status'', Update_Value = ''Done''\<rparr>,
      \<lparr>Update_ID = 500, Update_Field = ''Title'', Update_Value = ''Gone''\<rparr>,
      \<lparr>Update_ID = 5, Update_Field = ''Priority'', Update_Value = ''2''\<rparr>]"

text \<open>The request the loop sends for an update whose field is one of the four aliases.\<close>

definition updateCall :: "AzureDevOpsConfig \<Rightarrow> Update \<Rightarrow> Call" where
  "updateCall config update =
     UpdateWorkItemCall (Update_ID update) (Project config)
       [\<lparr>Op = OpReplace,
         Path = ''/fields/'' @ (case fieldMap (Update_Field update) of None \<Rightarrow> [] | Some f \<Rightarrow> f),
         Value = JString (Update_Value update)\<rparr>]"

section \<open>Properties\<close>

subsection \<open>The Patch document of create\_work\_item\<close>

text \<open>
  Claim C1. For every title, description and optional priority, create\_work\_item sends one
  create request whose Patch document is: add \<^verbatim>\<open>/fields/System.Title\<close> with the title, add
  \<^verbatim>\<open>/fields/System.Description\<close> with the description, and then an add on
  \<^verbatim>\<open>/fields/Microsoft.VSTS.Common.Priority\<close> exactly when a priority was supplied.
\<close>

theorem create_work_item_patch_document:
  assumes "args ''type'' = Some (JString ty)"
    and "args ''title'' = Some (JString title)"
    and "args ''description'' = Some (JString description)"
    and "args ''priority'' = map_option JString priority"
  shows "snd (snd (handleCreateWorkItem config client args (s, calls)))
           = calls @
             [CreateWorkItemCall ty (Project config)
               ([\<lparr>Op = OpAdd, Path = ''/fields/System.Title'', Value = JString title\<rparr>,
                 \<lparr>Op = OpAdd, Path = ''/fields/System.Description'', Value = JString description\<rparr>]
                @ (case priority of
                     None \<Rightarrow> []
                   | Some p \<Rightarrow>
                       [\<lparr>Op = OpAdd, Path = ''/fields/Microsoft.VSTS.Common.Priority'',
                         Value = JString p\<rparr>]))]"
  using assms
  by (cases priority)
     (auto simp: handleCreateWorkItem_def assertString_def commaOkString_def
        callCreateWorkItem_def Let_def split: prod.splits sum.splits option.splits)

theorem create_work_item_patch_document_witness:
  "snd (snd (handleCreateWorkItem mockConfig mockClient
               (bugArguments(''priority'' \<mapsto> JString ''2'')) (42, [])))
     = [CreateWorkItemCall ''Bug'' ''Apollo''
          [\<lparr>Op = OpAdd, Path = ''/fields/System.Title'', Value = JString ''Login fails''\<rparr>,
           \<lparr>Op = OpAdd, Path = ''/fields/System.Description'',
             Value = JString ''NPE on null token''\<rparr>,
           \<lparr>Op = OpAdd, Path = ''/fields/Microsoft.VSTS.Common.Priority'',
             Value = JString ''2''\<rparr>]]
   \<and> snd (snd (handleCreateWorkItem mockConfig mockClient bugArguments (42, [])))
     = [CreateWorkItemCall ''Bug'' ''Apollo''
          [\<lparr>Op = OpAdd, Path = ''/fields/System.Title'', Value = JString ''Login fails''\<rparr>,
           \<lparr>Op = OpAdd, Path = ''/fields/System.Description'',
             Value = JString ''NPE on null token''\<rparr>]]"
  using create_work_item_patch_document
          [of "bugArguments(''priority'' \<mapsto> JString ''2'')" "''Bug''" "''Login fails''"
              "''NPE on null token''" "Some ''2''" mockConfig mockClient 42 "[]"]
        create_work_item_patch_document
          [of bugArguments "''Bug''" "''Login fails''" "''NPE on null token''" None
              mockConfig mockClient 42 "[]"]
  by (simp add: bugArguments_def mockConfig_def)

subsection \<open>The result of create\_work\_item\<close>

text \<open>
  Claim C8. When the remote service accepts the creation, the text of the result is
  \<^verbatim>\<open>Created work item #<id>: <title>\<close> with the identifier and the \<^verbatim>\<open>System.Title\<close>
  field of the response (the empty string when the response has no such string field); the
  caller's title is not read again. Against a service that answers identifier 42 and echoes
  the fields, a Bug titled \<^verbatim>\<open>Login fails\<close> without priority gives
  \<^verbatim>\<open>Created work item #42: Login fails\<close>.
\<close>

theorem create_work_item_result:
  assumes "args ''type'' = Some (JString ty)"
    and "args ''title'' = Some (JString title)"
    and "args ''description'' = Some (JString description)"
    and "args ''priority'' = map_option JString priority"
    and "CreateWorkItem client ty (Project config)
           ([\<lparr>Op = OpAdd, Path = ''/fields/System.Title'', Value = JString title\<rparr>,
             \<lparr>Op = OpAdd, Path = ''/fields/System.Description'', Value = JString description\<rparr>]
            @ (case priority of
                 None \<Rightarrow> []
               | Some p \<Rightarrow>
                   [\<lparr>Op = OpAdd, Path = ''/fields/Microsoft.VSTS.Common.Priority'',
                     Value = JString p\<rparr>])) s
         = (Inr workItem, s')"
    and "WorkItem_Id workItem = Some i"
    and "WorkItem_Fields workItem = Some responseFields"
  shows "fst (handleCreateWorkItem config client args (s, calls))
           = Inr (ToolResultText
               (''Created work item #'' @ Itoa i @ '': ''
                  @ (case responseFields ''System.Title'' of Some (JString t) \<Rightarrow> t | _ \<Rightarrow> [])))"
  using assms
  by (cases priority)
     (auto simp: handleCreateWorkItem_def assertString_def commaOkString_def
        callCreateWorkItem_def Let_def split: prod.splits sum.splits option.splits jvalue.splits)

theorem create_work_item_result_witness:
  "fst (handleCreateWorkItem mockConfig mockClient bugArguments (42, []))
     = Inr (ToolResultText ''Created work item #42: Login fails'')"
  using create_work_item_result
          [of bugArguments "''Bug''" "''Login fails''" "''NPE on null token''" None
              mockClient mockConfig 42
              "\<lparr>WorkItem_Id = Some 42,
                WorkItem_Fields = Some (mockFields
                  [\<lparr>Op = OpAdd, Path = ''/fields/System.Title'', Value = JString ''Login fails''\<rparr>,
                   \<lparr>Op = OpAdd, Path = ''/fields/System.Description'',
                     Value = JString ''NPE on null token''\<rparr>]),
                WorkItem_Relations = None\<rparr>"
              43 42
              "mockFields
                  [\<lparr>Op = OpAdd, Path = ''/fields/System.Title'', Value = JString ''Login fails''\<rparr>,
                   \<lparr>Op = OpAdd, Path = ''/fields/System.Description'',
                     Value = JString ''NPE on null token''\<rparr>]"
              "[]"]
  by (simp add: bugArguments_def mockConfig_def mockClient_def mockFields_def Itoa_def
        natToString.simps digitChar_def)

subsection \<open>Missing arguments\<close>

text \<open>
  Claim C2 says that a handler never aborts on an argument that is absent or of the wrong
  type. update\_work\_item reads its required arguments with single-value type assertions:
  called without \<^verbatim>\<open>id\<close> it panics before any request is sent, and returns no result.
\<close>

theorem update_work_item_missing_id_panics:
  "handleUpdateWorkItem mockConfig mockClient
     [''field'' \<mapsto> JString ''State'', ''value'' \<mapsto> JString ''Closed''] (100, [])
   = (Inl InterfaceConversion, (100, []))"
  by (simp add: handleUpdateWorkItem_def assertFloat64_def)

subsection \<open>Removing a relation\<close>






lemma remove_relation_without_relations:
  assumes "args ''source_id'' = Some (JNumber src)"
    and "args ''target_id'' = Some (JNumber tgt)"
    and "args ''relation_type'' = Some (JString relationType)"
    and "args ''operation'' = Some (JString ''remove'')"
    and "GetWorkItem client (int_of_float64 src) (Project config) s = (Inr workItem, s1)"
    and "WorkItem_Relations workItem = None"
  shows "handleManageWorkItemRelations config client args (s, calls)
           = (Inr (ToolResultError ''Work item has no relations''),
              (s1, calls @ [GetWorkItemCall (int_of_float64 src) (Project config)]))"
  using assms
  by (simp add: handleManageWorkItemRelations_def assertFloat64_def assertString_def
        commaOkString_def callGetWorkItem_def Let_def)

subsection \<open>An unknown tag operation\<close>



subsection \<open>The team argument of the sprint handlers\<close>

text \<open>
  Claim C9. Two invocations of get\_current\_sprint, or of get\_sprints, whose argument bags
  agree on every key but \<^verbatim>\<open>team\<close> send the same request and return the same result: the
  team, with its default \<^verbatim>\<open><project> Team\<close>, is computed and never used.
\<close>

theorem team_argument_is_ignored:
  assumes "\<forall>k. k \<noteq> ''team'' \<longrightarrow> args1 k = args2 k"
  shows "handleGetCurrentSprint config http args1 w = handleGetCurrentSprint config http args2 w
       \<and> handleGetSprints config http args1 w = handleGetSprints config http args2 w"
proof -
  have "args1 ''include_completed'' = args2 ''include_completed''"
    using assms by simp
  then show ?thesis
    by (simp add: handleGetCurrentSprint_def handleGetSprints_def Let_def split: prod.splits)
qed

theorem team_argument_is_ignored_witness:
  "handleGetCurrentSprint mockConfig mockHttp [''team'' \<mapsto> JString ''Blue''] (0, [])
     = handleGetCurrentSprint mockConfig mockHttp Map.empty (0, [])
   \<and> handleGetSprints mockConfig mockHttp [''team'' \<mapsto> JString ''Blue''] (0, [])
     = handleGetSprints mockConfig mockHttp [''team'' \<mapsto> JString ''Red''] (0, [])"
  using team_argument_is_ignored
          [of "[''team'' \<mapsto> JString ''Blue'']" Map.empty mockConfig mockHttp "(0, [])"]
        team_argument_is_ignored
          [of "[''team'' \<mapsto> JString ''Blue'']" "[''team'' \<mapsto> JString ''Red'']"
              mockConfig mockHttp "(0, [])"]
  by simp

lemma current_sprint_request:
  "handleGetCurrentSprint mockConfig mockHttp [''team'' \<mapsto> JString ''Blue''] (0, [])
     = (ToolResultText
          (''Current Sprint: Sprint 7'' @ [CHR 0x0A] @ ''Start Date: 2025-03-03''
             @ [CHR 0x0A] @ ''End Date: 2025-03-14''),
        (1, [(''https://dev.azure.com/acme/Apollo/_apis/work/teamsettings/iterations?%24timeframe=current&api-version=7.2-preview'',
              ''pat'')]))"
  by code_simp

subsection \<open>The choice of a wiki\<close>

lemma scanWikis_find:
  "scanWikis cond (map wikiOf ws) = Inr (map_option snd (find (\<lambda>(name, i). cond name) ws))"
  by (induction ws) (auto simp: wikiOf_def)

lemma loggable_wikiOf: "list_all loggable (map wikiOf ws)"
  by (induction ws) (auto simp: wikiOf_def loggable_def)

lemma chooseWiki_find:
  assumes "ws \<noteq> []"
  shows "chooseWiki cond (map wikiOf ws)
           = Inr (Inr (case find (\<lambda>(name, i). cond name) ws of
                         Some (name, i) \<Rightarrow> i
                       | None \<Rightarrow> snd (hd ws)))"
proof (cases ws)
  case Nil
  with assms show ?thesis by simp
next
  case (Cons p ps)
  have "scanWikis cond (map wikiOf ws) = Inr (map_option snd (find (\<lambda>(name, i). cond name) ws))"
    by (rule scanWikis_find)
  then show ?thesis
    using Cons by (auto simp: chooseWiki_def wikiOf_def split: option.splits if_splits)
qed

text \<open>
  Claim C7. For every non-empty list of wikis and every project name, get\_wiki\_page takes
  the first wiki whose lower-cased name contains the lower-cased project name with its spaces
  removed, or contains \<^verbatim>\<open>documentation\<close>, and the first wiki of the list when there is none;
  manage\_wiki\_page, list\_wiki\_pages and search\_wiki (one loop, written three times) take the
  first wiki whose name contains the project name as it is, and the first wiki of the list
  when there is none. \<^const>\<open>find\<close> gives the first element of a list that satisfies a test.
\<close>

theorem wiki_selection:
  assumes "ws \<noteq> []"
  shows "handleGetWikiPage_wikiId ToLower config (map wikiOf ws)
           = Inr (Inr (case find (\<lambda>(name, i).
                                Contains (ToLower name) (ToLower (Replace (Project config) '' '' []))
                                \<or> Contains (ToLower name) ''documentation'') ws of
                         Some (name, i) \<Rightarrow> i
                       | None \<Rightarrow> snd (hd ws)))
       \<and> handleManageWikiPage_wikiId config (map wikiOf ws)
           = Inr (Inr (case find (\<lambda>(name, i). Contains name (Project config)) ws of
                         Some (name, i) \<Rightarrow> i
                       | None \<Rightarrow> snd (hd ws)))"
  using assms
  by (simp add: handleGetWikiPage_wikiId_def handleManageWikiPage_wikiId_def Let_def
        loggable_wikiOf chooseWiki_find)

theorem wiki_selection_witness:
  "handleGetWikiPage_wikiId ToLowerASCII landerConfig (map wikiOf landerWikis) = Inr (Inr 2)
   \<and> handleManageWikiPage_wikiId landerConfig (map wikiOf landerWikis) = Inr (Inr 3)"
proof -
  have e1: "(case find (\<lambda>(name, i).
                 Contains (ToLowerASCII name) (ToLowerASCII (Replace (Project landerConfig) '' '' []))
                 \<or> Contains (ToLowerASCII name) ''documentation'') landerWikis of
               Some (name, i) \<Rightarrow> i
             | None \<Rightarrow> snd (hd landerWikis)) = 2"
    by code_simp
  have e2: "(case find (\<lambda>(name, i). Contains name (Project landerConfig)) landerWikis of
               Some (name, i) \<Rightarrow> i
             | None \<Rightarrow> snd (hd landerWikis)) = 3"
    by code_simp
  have ne: "landerWikis \<noteq> []"
    by (simp add: landerWikis_def)
  show ?thesis
    using wiki_selection [of landerWikis ToLowerASCII landerConfig, OF ne]
    unfolding e1 e2 .
qed

subsection \<open>The cap on the details of a query\<close>

lemma derefIds_populated: "derefIds (map (\<lambda>i. \<lparr>Ref_Id = Some i\<rparr>) ids) = Inr ids"
  by (induction ids) auto

lemma fallbackLines_populated:
  "fallbackLines (map (\<lambda>i. \<lparr>Ref_Id = Some i\<rparr>) ids) = Inr (map (\<lambda>i. ''ID: '' @ Itoa i) ids)"
  by (induction ids) auto

lemma detailLines_populated:
  assumes "\<forall>item\<in>set items. WorkItem_Id item \<noteq> None"
  shows "\<exists>ls. detailLines other items = Inr ls \<and> length ls = length items"
  using assms by (induction items) (auto simp: Let_def)

text \<open>
  Claim C4. When the query matches nothing (a nil or an empty list of references),
  query\_work\_items returns \<^verbatim>\<open>No work items found matching the query.\<close> and asks for no
  details. When it matches more than 20 work items, the one request for details names the
  first 20 identifiers in the order of the result, and the text starts with the line
  \<^verbatim>\<open>Found <total> work items. Showing details for the first 20:\<close>, where the total is the
  number of all matches.
\<close>

theorem query_work_items_cap:
  assumes "args ''query'' = Some (JString query)"
    and "QueryByWiql client query (Project config) s = (Inr queryResult, s1)"
  shows "(WorkItems queryResult = None \<or> WorkItems queryResult = Some [] \<longrightarrow>
            handleQueryWorkItems config client other args (s, calls)
              = (Inr (ToolResultText ''No work items found matching the query.''),
                 (s1, calls @ [QueryByWiqlCall query (Project config)])))
       \<and> (\<forall>ids reply s2.
            WorkItems queryResult = Some (map (\<lambda>i. \<lparr>Ref_Id = Some i\<rparr>) ids)
            \<and> length ids > 20
            \<and> GetWorkItems client (take 20 ids) s1 = (reply, s2)
            \<and> (\<forall>items. reply = Inr (Some items) \<longrightarrow> (\<forall>item\<in>set items. WorkItem_Id item \<noteq> None))
            \<longrightarrow> (\<exists>ls. handleQueryWorkItems config client other args (s, calls)
                    = (Inr (ToolResultText
                         (Join ([''Found '' @ Itoa (int (length ids))
                                   @ '' work items. Showing details for the first 20:'', []] @ ls)
                            [CHR 0x0A])),
                       (s2, calls @ [QueryByWiqlCall query (Project config),
                                     GetWorkItemsCall (take 20 ids)]))))"
proof (intro conjI allI impI)
  assume "WorkItems queryResult = None \<or> WorkItems queryResult = Some []"
  then show "handleQueryWorkItems config client other args (s, calls)
              = (Inr (ToolResultText ''No work items found matching the query.''),
                 (s1, calls @ [QueryByWiqlCall query (Project config)]))"
    using assms
    by (auto simp: handleQueryWorkItems_def assertString_def callQueryByWiql_def)
next
  fix ids reply s2
  assume h: "WorkItems queryResult = Some (map (\<lambda>i. \<lparr>Ref_Id = Some i\<rparr>) ids)
            \<and> length ids > 20
            \<and> GetWorkItems client (take 20 ids) s1 = (reply, s2)
            \<and> (\<forall>items. reply = Inr (Some items) \<longrightarrow> (\<forall>item\<in>set items. WorkItem_Id item \<noteq> None))"
  let ?refs = "map (\<lambda>i. \<lparr>Ref_Id = Some i\<rparr>) ids"
  let ?header = "[''Found '' @ Itoa (int (length ids))
                    @ '' work items. Showing details for the first 20:'', []]"
  have ids20: "derefIds (take 20 ?refs) = Inr (take 20 ids)"
    by (simp add: take_map derefIds_populated)
  have it20: "Itoa 20 = ''20''"
    by (simp add: Itoa_def natToString.simps digitChar_def)
  have step: "handleQueryWorkItems config client other args (s, calls)
        = (case reply of
             Inr (Some (item # items)) \<Rightarrow>
               (case detailLines other (item # items) of
                  Inl p \<Rightarrow> (Inl p, (s2, calls @ [QueryByWiqlCall query (Project config),
                                                GetWorkItemsCall (take 20 ids)]))
                | Inr ls \<Rightarrow>
                    (Inr (ToolResultText (Join (?header @ ls) [CHR 0x0A])),
                     (s2, calls @ [QueryByWiqlCall query (Project config),
                                   GetWorkItemsCall (take 20 ids)])))
           | _ \<Rightarrow>
               (Inr (ToolResultText
                  (Join (?header @ map (\<lambda>i. ''ID: '' @ Itoa i) ids) [CHR 0x0A])),
                (s2, calls @ [QueryByWiqlCall query (Project config),
                              GetWorkItemsCall (take 20 ids)])))"
    using assms h
    by (auto simp: handleQueryWorkItems_def assertString_def callQueryByWiql_def
          callGetWorkItems_def maxDetailsToFetch_def Let_def ids20 it20 fallbackLines_populated
          split: sum.splits option.splits list.splits)
  show "\<exists>ls. handleQueryWorkItems config client other args (s, calls)
                    = (Inr (ToolResultText (Join (?header @ ls) [CHR 0x0A])),
                       (s2, calls @ [QueryByWiqlCall query (Project config),
                                     GetWorkItemsCall (take 20 ids)]))"
  proof (cases "\<exists>item items. reply = Inr (Some (item # items))")
    case True
    then obtain item items where r: "reply = Inr (Some (item # items))" by blast
    with h have "\<forall>x\<in>set (item # items). WorkItem_Id x \<noteq> None" by blast
    then obtain ls where "detailLines other (item # items) = Inr ls"
      using detailLines_populated by blast
    with step r show ?thesis by auto
  next
    case False
    then have "handleQueryWorkItems config client other args (s, calls)
        = (Inr (ToolResultText
                  (Join (?header @ map (\<lambda>i. ''ID: '' @ Itoa i) ids) [CHR 0x0A])),
                (s2, calls @ [QueryByWiqlCall query (Project config),
                              GetWorkItemsCall (take 20 ids)]))"
      using step by (auto split: sum.splits option.splits list.splits)
    then show ?thesis by blast
  qed
qed


theorem query_work_items_cap_witness:
  "handleQueryWorkItems mockConfig mockClient (\<lambda>v. []) [''query'' \<mapsto> JString ''SELECT''] (1, [])
     = (Inr (ToolResultText ''No work items found matching the query.''),
        (1, [QueryByWiqlCall ''SELECT'' ''Apollo'']))
   \<and> (\<exists>ls. handleQueryWorkItems mockConfig mockClient (\<lambda>v. [])
               [''query'' \<mapsto> JString ''SELECT''] (26, [])
          = (Inr (ToolResultText
               (Join ([''Found 25 work items. Showing details for the first 20:'', []] @ ls)
                  [CHR 0x0A])),
             (26, [QueryByWiqlCall ''SELECT'' ''Apollo'',
                   GetWorkItemsCall
                     [1, 2, 3, 4, 5, 6, 7, 8, 9, 10, 11, 12, 13, 14, 15, 16, 17, 18, 19, 20]])))"
proof -
  have q1: "QueryByWiql mockClient ''SELECT'' (Project mockConfig) 1
              = (Inr \<lparr>WorkItems = Some []\<rparr>, 1)"
    by (simp add: mockClient_def)
  have q26: "QueryByWiql mockClient ''SELECT'' (Project mockConfig) 26
              = (Inr \<lparr>WorkItems = Some (map (\<lambda>i. \<lparr>Ref_Id = Some i\<rparr>) [1..25])\<rparr>, 26)"
    by (simp add: mockClient_def)
  have t20: "take 20 [1..25]
               = [1, 2, 3, 4, 5, 6, 7, 8, 9, 10, 11, 12, 13, 14, 15, 16, 17, 18, 19, 20 :: int]"
    by code_simp
  have i25: "Itoa 25 = ''25''"
    by (simp add: Itoa_def natToString.simps digitChar_def)
  have get: "GetWorkItems mockClient (take 20 [1..25]) 26
               = (Inr (Some (map mockItem (take 20 [1..25]))), 26)"
    by (simp add: mockClient_def)
  have a: "handleQueryWorkItems mockConfig mockClient (\<lambda>v. []) [''query'' \<mapsto> JString ''SELECT'']
             (1, [])
     = (Inr (ToolResultText ''No work items found matching the query.''),
        (1, [QueryByWiqlCall ''SELECT'' ''Apollo'']))"
    using query_work_items_cap
            [where args = "[''query'' \<mapsto> JString ''SELECT'']" and query = "''SELECT''"
               and client = mockClient and config = mockConfig and s = 1 and ?s1.0 = 1
               and queryResult = "\<lparr>WorkItems = Some []\<rparr>" and other = "\<lambda>v. []"
               and calls = "[]", OF _ q1, THEN conjunct1]
    by (simp add: mockConfig_def)
  have b: "\<exists>ls. handleQueryWorkItems mockConfig mockClient (\<lambda>v. [])
               [''query'' \<mapsto> JString ''SELECT''] (26, [])
          = (Inr (ToolResultText
               (Join ([''Found '' @ Itoa (int (length [1..25::int]))
                         @ '' work items. Showing details for the first 20:'', []] @ ls)
                  [CHR 0x0A])),
             (26, [] @ [QueryByWiqlCall ''SELECT'' (Project mockConfig),
                   GetWorkItemsCall (take 20 [1..25])]))"
    using query_work_items_cap
            [where args = "[''query'' \<mapsto> JString ''SELECT'']" and query = "''SELECT''"
               and client = mockClient and config = mockConfig and s = 26 and ?s1.0 = 26
               and queryResult = "\<lparr>WorkItems = Some (map (\<lambda>i. \<lparr>Ref_Id = Some i\<rparr>) [1..25])\<rparr>"
               and other = "\<lambda>v. []" and calls = "[]", OF _ q26, THEN conjunct2, THEN spec,
             THEN spec, THEN spec, of "[1..25]" "Inr (Some (map mockItem (take 20 [1..25])))" 26]
          get
    by (auto simp: mockItem_def)
  have len: "int (length [1..25::int]) = 25"
    by simp
  from b have "\<exists>ls. handleQueryWorkItems mockConfig mockClient (\<lambda>v. [])
               [''query'' \<mapsto> JString ''SELECT''] (26, [])
          = (Inr (ToolResultText
               (Join ([''Found 25 work items. Showing details for the first 20:'', []] @ ls)
                  [CHR 0x0A])),
             (26, [QueryByWiqlCall ''SELECT'' ''Apollo'',
                   GetWorkItemsCall
                     [1, 2, 3, 4, 5, 6, 7, 8, 9, 10, 11, 12, 13, 14, 15, 16, 17, 18, 19, 20]]))"
    unfolding len i25 t20 by (simp add: mockConfig_def)
  with a show ?thesis by blast
qed

subsection \<open>The tag set operations\<close>

lemma Split_from_no_separator:
  "c \<notin> set x \<Longrightarrow> Split_from [c] piece x = [piece @ x]"
  by (induction x arbitrary: piece) auto














subsection \<open>Partial failure of a batch update\<close>

lemma Split_from_separator:
  "c \<notin> set x \<Longrightarrow> Split_from [c] piece (x @ c # rest) = (piece @ x) # Split_from [c] [] rest"
  by (induction x arbitrary: piece) auto

lemma Split_Join:
  assumes "es \<noteq> []" and "\<forall>e\<in>set es. c \<notin> set e"
  shows "Split (Join es [c]) [c] = es"
  using assms
proof (induction es "[c]" rule: Join.induct)
  case 1
  then show ?case by simp
next
  case (2 x)
  then show ?case by (simp add: Split_def Split_from_no_separator)
next
  case (3 x y ys)
  then have "Split_from [c] [] (Join (y # ys) [c]) = y # ys"
    by (simp add: Split_def)
  with 3 show ?case
    by (simp add: Split_def Split_from_separator)
qed

lemma natToString_digits: "set (natToString n) \<subseteq> set ''0123456789''"
proof (induction n rule: natToString.induct)
  case (1 n)
  have d: "\<And>k. k < 10 \<Longrightarrow> digitChar k \<in> set ''0123456789''"
    unfolding digitChar_def by (rule nth_mem) simp
  show ?case
  proof (cases "n < 10")
    case True
    then show ?thesis using d [of n] by (subst natToString.simps) simp
  next
    case False
    have "digitChar (n mod 10) \<in> set ''0123456789''"
      by (rule d) simp
    with 1 False show ?thesis by (subst natToString.simps) simp
  qed
qed

lemma Itoa_no_line_feed: "CHR 0x0A \<notin> set (Itoa i)"
  using natToString_digits [of "nat i"] natToString_digits [of "nat (- i)"]
  by (auto simp: Itoa_def)

lemma batchUpdateLoop_results:
  "batchUpdateLoop config client us results w
     = (case batchUpdateLoop config client us [] w of
          (Inl p, w') \<Rightarrow> (Inl p, w')
        | (Inr e, w') \<Rightarrow> (Inr (results @ e), w'))"
proof (induction us arbitrary: results w)
  case Nil
  then show ?case by simp
next
  case (Cons u us)
  note IH = Cons.IH
  show ?case
  proof (cases "fieldMap (Update_Field u)")
    case None
    then show ?thesis
      using IH [of "results @ [''Invalid field for #'' @ Itoa (Update_ID u) @ '': '' @ Update_Field u]" w]
            IH [of "[''Invalid field for #'' @ Itoa (Update_ID u) @ '': '' @ Update_Field u]" w]
      by (simp split: prod.splits sum.splits)
  next
    case (Some f)
    obtain r w1 where call: "callUpdateWorkItem client (Update_ID u) (Project config)
        [\<lparr>Op = OpReplace, Path = ''/fields/'' @ f, Value = JString (Update_Value u)\<rparr>] w = (r, w1)"
      by (cases "callUpdateWorkItem client (Update_ID u) (Project config)
        [\<lparr>Op = OpReplace, Path = ''/fields/'' @ f, Value = JString (Update_Value u)\<rparr>] w") auto
    show ?thesis
    proof (cases r)
      case (Inl err)
      then show ?thesis
        using Some call
              IH [of "results @ [''Failed to update #'' @ Itoa (Update_ID u) @ '': '' @ err]" w1]
              IH [of "[''Failed to update #'' @ Itoa (Update_ID u) @ '': '' @ err]" w1]
        by (simp split: prod.splits sum.splits)
    next
      case (Inr item)
      show ?thesis
      proof (cases "WorkItem_Id item")
        case None
        with Inr Some call show ?thesis by simp
      next
        case (Some i)
        then show ?thesis
          using Inr \<open>fieldMap (Update_Field u) = Some f\<close> call
                IH [of "results @ [''Updated work item #'' @ Itoa i]" w1]
                IH [of "[''Updated work item #'' @ Itoa i]" w1]
          by (simp split: prod.splits sum.splits)
      qed
    qed
  qed
qed

lemma batchUpdateLoop_append:
  "batchUpdateLoop config client (xs @ ys) [] w
     = (case batchUpdateLoop config client xs [] w of
          (Inl p, w1) \<Rightarrow> (Inl p, w1)
        | (Inr e1, w1) \<Rightarrow>
            (case batchUpdateLoop config client ys [] w1 of
               (Inl p, w2) \<Rightarrow> (Inl p, w2)
             | (Inr e2, w2) \<Rightarrow> (Inr (e1 @ e2), w2)))"
proof (induction xs arbitrary: w)
  case Nil
  then show ?case by (simp split: prod.splits sum.splits)
next
  case (Cons u xs)
  have step: "\<And>line w1. batchUpdateLoop config client (xs @ ys) [line] w1
      = (case batchUpdateLoop config client xs [line] w1 of
          (Inl p, w2) \<Rightarrow> (Inl p, w2)
        | (Inr e1, w2) \<Rightarrow>
            (case batchUpdateLoop config client ys [] w2 of
               (Inl p, w3) \<Rightarrow> (Inl p, w3)
             | (Inr e2, w3) \<Rightarrow> (Inr (e1 @ e2), w3)))"
  proof -
    fix line w1
    show "batchUpdateLoop config client (xs @ ys) [line] w1
      = (case batchUpdateLoop config client xs [line] w1 of
          (Inl p, w2) \<Rightarrow> (Inl p, w2)
        | (Inr e1, w2) \<Rightarrow>
            (case batchUpdateLoop config client ys [] w2 of
               (Inl p, w3) \<Rightarrow> (Inl p, w3)
             | (Inr e2, w3) \<Rightarrow> (Inr (e1 @ e2), w3)))"
      by (subst batchUpdateLoop_results [of config client "xs @ ys"],
          subst batchUpdateLoop_results [of config client xs],
          subst Cons.IH)
         (simp split: prod.splits sum.splits)
  qed
  show ?case
    by (simp add: step split: option.splits prod.splits sum.splits)
qed


lemma batchUpdateLoop_valid:
  assumes ids: "\<forall>i project document st r st'.
                  UpdateWorkItem client i project document st = (Inr r, st') \<longrightarrow> WorkItem_Id r \<noteq> None"
    and valid: "\<forall>x\<in>set us. fieldMap (Update_Field x) \<noteq> None"
  shows "\<exists>e w'. batchUpdateLoop config client us [] w = (Inr e, w')
           \<and> length e = length us
           \<and> (\<forall>l\<in>set e. \<not> prefix ''Invalid field for #'' l)
           \<and> snd w' = snd w @ map (updateCall config) us
           \<and> ((\<forall>i project document st err st'.
                  UpdateWorkItem client i project document st = (Inl err, st')
                  \<longrightarrow> CHR 0x0A \<notin> set err)
                \<longrightarrow> (\<forall>l\<in>set e. CHR 0x0A \<notin> set l))"
  using valid
proof (induction us arbitrary: w)
  case Nil
  then show ?case by simp
next
  case (Cons u us)
  from Cons.prems obtain f where f: "fieldMap (Update_Field u) = Some f"
    by auto
  let ?doc = "[\<lparr>Op = OpReplace, Path = ''/fields/'' @ f, Value = JString (Update_Value u)\<rparr>]"
  obtain r s1 where remote: "UpdateWorkItem client (Update_ID u) (Project config) ?doc (fst w) = (r, s1)"
    by (cases "UpdateWorkItem client (Update_ID u) (Project config) ?doc (fst w)") auto
  let ?w1 = "(s1, snd w @ [updateCall config u])"
  have call: "callUpdateWorkItem client (Update_ID u) (Project config) ?doc w = (r, ?w1)"
    using remote f by (simp add: callUpdateWorkItem_def updateCall_def)
  have "\<forall>x\<in>set us. fieldMap (Update_Field x) \<noteq> None"
    using Cons.prems by simp
  from Cons.IH [OF this, of ?w1] obtain e w' where
    run: "batchUpdateLoop config client us [] ?w1 = (Inr e, w')"
    and len: "length e = length us"
    and noinv: "\<forall>l\<in>set e. \<not> prefix ''Invalid field for #'' l"
    and log: "snd w' = snd ?w1 @ map (updateCall config) us"
    and nolf: "(\<forall>i project document st err st'.
                  UpdateWorkItem client i project document st = (Inl err, st')
                  \<longrightarrow> CHR 0x0A \<notin> set err)
                \<longrightarrow> (\<forall>l\<in>set e. CHR 0x0A \<notin> set l)"
    by blast
  have shift: "\<And>line. batchUpdateLoop config client us [line] ?w1 = (Inr (line # e), w')"
    using run by (subst batchUpdateLoop_results) simp
  have fin: "\<And>line. batchUpdateLoop config client (u # us) [] w = (Inr (line # e), w')
        \<Longrightarrow> \<not> prefix ''Invalid field for #'' line
        \<Longrightarrow> ((\<forall>i project document st err st'.
                  UpdateWorkItem client i project document st = (Inl err, st')
                  \<longrightarrow> CHR 0x0A \<notin> set err) \<longrightarrow> CHR 0x0A \<notin> set line)
        \<Longrightarrow> ?case"
  proof -
    fix line
    assume A: "batchUpdateLoop config client (u # us) [] w = (Inr (line # e), w')"
      and P: "\<not> prefix ''Invalid field for #'' line"
      and L: "(\<forall>i project document st err st'.
                  UpdateWorkItem client i project document st = (Inl err, st')
                  \<longrightarrow> CHR 0x0A \<notin> set err) \<longrightarrow> CHR 0x0A \<notin> set line"
    have B: "length (line # e) = length (u # us)"
      using len by simp
    have C: "\<forall>l\<in>set (line # e). \<not> prefix ''Invalid field for #'' l"
      using noinv P by simp
    have D: "snd w' = snd w @ map (updateCall config) (u # us)"
      using log by simp
    have E: "(\<forall>i project document st err st'.
                  UpdateWorkItem client i project document st = (Inl err, st')
                  \<longrightarrow> CHR 0x0A \<notin> set err)
                \<longrightarrow> (\<forall>l\<in>set (line # e). CHR 0x0A \<notin> set l)"
    proof
      assume h: "\<forall>i project document st err st'.
                  UpdateWorkItem client i project document st = (Inl err, st')
                  \<longrightarrow> CHR 0x0A \<notin> set err"
      from h L have "CHR 0x0A \<notin> set line" by (rule rev_mp)
      moreover from h nolf have "\<forall>l\<in>set e. CHR 0x0A \<notin> set l" by (rule rev_mp)
      ultimately show "\<forall>l\<in>set (line # e). CHR 0x0A \<notin> set l" by simp
    qed
    show ?case
      apply (rule exI [where x = "line # e"])
      apply (rule exI [where x = w'])
      apply (intro conjI)
          apply (rule A)
         apply (rule B)
        apply (rule C)
       apply (rule D)
      apply (rule E)
      done
  qed
  show ?case
  proof (cases r)
    case (Inl err)
    let ?line = "''Failed to update #'' @ Itoa (Update_ID u) @ '': '' @ err"
    have A: "batchUpdateLoop config client (u # us) [] w = (Inr (?line # e), w')"
      using f call Inl shift [of ?line] by simp
    have P: "\<not> prefix ''Invalid field for #'' ?line"
      by simp
    have L: "(\<forall>i project document st err st'.
                  UpdateWorkItem client i project document st = (Inl err, st')
                  \<longrightarrow> CHR 0x0A \<notin> set err) \<longrightarrow> CHR 0x0A \<notin> set ?line"
    proof
      assume "\<forall>i project document st err st'.
                  UpdateWorkItem client i project document st = (Inl err, st')
                  \<longrightarrow> CHR 0x0A \<notin> set err"
      with remote Inl have "CHR 0x0A \<notin> set err"
        by blast
      then show "CHR 0x0A \<notin> set ?line"
        using Itoa_no_line_feed by auto
    qed
    from A P L show ?thesis by (rule fin)
  next
    case (Inr item)
    with ids remote obtain i where i: "WorkItem_Id item = Some i"
      by blast
    let ?line = "''Updated work item #'' @ Itoa i"
    have A: "batchUpdateLoop config client (u # us) [] w = (Inr (?line # e), w')"
      using f call Inr i shift [of ?line] by simp
    have P: "\<not> prefix ''Invalid field for #'' ?line"
      by simp
    have L: "(\<forall>i project document st err st'.
                  UpdateWorkItem client i project document st = (Inl err, st')
                  \<longrightarrow> CHR 0x0A \<notin> set err) \<longrightarrow> CHR 0x0A \<notin> set ?line"
      using Itoa_no_line_feed by auto
    from A P L show ?thesis by (rule fin)
  qed
qed

text \<open>
  Claim C5, amended. Take a batch \<open>xs @ u # ys\<close> of \<open>N\<close> updates in which \<open>u\<close> alone names a
  field outside the four aliases, and a service that returns an identifier with every work
  item it updates. Then the text returned is the entries \<open>e1 @ [invalid] @ e2\<close> joined by
  line feeds: \<open>N\<close> entries, one per update and in the order of the batch. The entry of \<open>u\<close> is
  the only one that starts with \<^verbatim>\<open>Invalid field for #\<close>. The requests sent are exactly those of
  the other \<open>N - 1\<close> updates, one each and in order, so \<open>u\<close> causes none and a failure stops
  nothing. The entries of the others are those the loop produces for \<open>xs\<close> and then, from the
  state \<open>xs\<close> left, for \<open>ys\<close>: what the batch without \<open>u\<close> produces. The entries are the
  lines of the text when the field name of \<open>u\<close> and the error texts of the service hold no line
  feed.
\<close>

theorem batch_update_partial_failure:
  assumes ids: "\<forall>i project document st r st'.
                  UpdateWorkItem client i project document st = (Inr r, st') \<longrightarrow> WorkItem_Id r \<noteq> None"
    and arg: "args ''updates'' = Some (JString updatesJSON)"
    and batch: "unmarshal updatesJSON = Inr (xs @ u # ys)"
    and invalid: "fieldMap (Update_Field u) = None"
    and others: "\<forall>x\<in>set (xs @ ys). fieldMap (Update_Field x) \<noteq> None"
  shows "\<exists>e1 w1 e2 w2.
           batchUpdateLoop config client xs [] w = (Inr e1, w1)
         \<and> batchUpdateLoop config client ys [] w1 = (Inr e2, w2)
         \<and> length e1 = length xs \<and> length e2 = length ys
         \<and> (\<forall>l\<in>set (e1 @ e2). \<not> prefix ''Invalid field for #'' l)
         \<and> snd w2 = snd w @ map (updateCall config) (xs @ ys)
         \<and> handleBatchUpdateWorkItems config client unmarshal args w
             = (Inr (ToolResultText
                  (Join (e1 @ [''Invalid field for #'' @ Itoa (Update_ID u) @ '': ''
                                 @ Update_Field u] @ e2) [CHR 0x0A])),
                w2)
         \<and> (CHR 0x0A \<notin> set (Update_Field u)
              \<and> (\<forall>i project document st err st'.
                    UpdateWorkItem client i project document st = (Inl err, st')
                    \<longrightarrow> CHR 0x0A \<notin> set err)
            \<longrightarrow> Split (Join (e1 @ [''Invalid field for #'' @ Itoa (Update_ID u) @ '': ''
                                      @ Update_Field u] @ e2) [CHR 0x0A]) [CHR 0x0A]
                  = e1 @ [''Invalid field for #'' @ Itoa (Update_ID u) @ '': ''
                            @ Update_Field u] @ e2)"
proof -
  let ?inv = "''Invalid field for #'' @ Itoa (Update_ID u) @ '': '' @ Update_Field u"
  have vx: "\<forall>x\<in>set xs. fieldMap (Update_Field x) \<noteq> None"
    and vy: "\<forall>x\<in>set ys. fieldMap (Update_Field x) \<noteq> None"
    using others by auto
  from batchUpdateLoop_valid [OF ids vx, of config w] obtain e1 w1 where
    r1: "batchUpdateLoop config client xs [] w = (Inr e1, w1)"
    and l1: "length e1 = length xs"
    and n1: "\<forall>l\<in>set e1. \<not> prefix ''Invalid field for #'' l"
    and c1: "snd w1 = snd w @ map (updateCall config) xs"
    and f1: "(\<forall>i project document st err st'.
                  UpdateWorkItem client i project document st = (Inl err, st')
                  \<longrightarrow> CHR 0x0A \<notin> set err)
                \<longrightarrow> (\<forall>l\<in>set e1. CHR 0x0A \<notin> set l)"
    by blast
  from batchUpdateLoop_valid [OF ids vy, of config w1] obtain e2 w2 where
    r2: "batchUpdateLoop config client ys [] w1 = (Inr e2, w2)"
    and l2: "length e2 = length ys"
    and n2: "\<forall>l\<in>set e2. \<not> prefix ''Invalid field for #'' l"
    and c2: "snd w2 = snd w1 @ map (updateCall config) ys"
    and f2: "(\<forall>i project document st err st'.
                  UpdateWorkItem client i project document st = (Inl err, st')
                  \<longrightarrow> CHR 0x0A \<notin> set err)
                \<longrightarrow> (\<forall>l\<in>set e2. CHR 0x0A \<notin> set l)"
    by blast
  have "batchUpdateLoop config client (u # ys) [] w1 = batchUpdateLoop config client ys [?inv] w1"
    using invalid by simp
  also have "\<dots> = (Inr (?inv # e2), w2)"
    using r2 by (subst batchUpdateLoop_results) simp
  finally have r3: "batchUpdateLoop config client (u # ys) [] w1 = (Inr (?inv # e2), w2)" .
  have whole: "batchUpdateLoop config client (xs @ u # ys) [] w = (Inr (e1 @ ?inv # e2), w2)"
    using r1 r3 by (subst batchUpdateLoop_append) simp
  have res: "handleBatchUpdateWorkItems config client unmarshal args w
             = (Inr (ToolResultText (Join (e1 @ [?inv] @ e2) [CHR 0x0A])), w2)"
    using arg batch whole by (simp add: handleBatchUpdateWorkItems_def assertString_def)
  have lines: "CHR 0x0A \<notin> set (Update_Field u)
              \<and> (\<forall>i project document st err st'.
                    UpdateWorkItem client i project document st = (Inl err, st')
                    \<longrightarrow> CHR 0x0A \<notin> set err)
            \<longrightarrow> Split (Join (e1 @ [?inv] @ e2) [CHR 0x0A]) [CHR 0x0A] = e1 @ [?inv] @ e2"
  proof
    assume h: "CHR 0x0A \<notin> set (Update_Field u)
              \<and> (\<forall>i project document st err st'.
                    UpdateWorkItem client i project document st = (Inl err, st')
                    \<longrightarrow> CHR 0x0A \<notin> set err)"
    have "CHR 0x0A \<notin> set ?inv"
      using h Itoa_no_line_feed by auto
    moreover have "\<forall>l\<in>set e1. CHR 0x0A \<notin> set l" and "\<forall>l\<in>set e2. CHR 0x0A \<notin> set l"
      using h f1 f2 by blast+
    ultimately have "\<forall>e\<in>set (e1 @ [?inv] @ e2). CHR 0x0A \<notin> set e"
      by auto
    then show "Split (Join (e1 @ [?inv] @ e2) [CHR 0x0A]) [CHR 0x0A] = e1 @ [?inv] @ e2"
      by (intro Split_Join) auto
  qed
  have calls: "snd w2 = snd w @ map (updateCall config) (xs @ ys)"
    using c1 c2 by simp
  have noinv: "\<forall>l\<in>set (e1 @ e2). \<not> prefix ''Invalid field for #'' l"
    using n1 n2 by auto
  show ?thesis
    apply (rule exI [where x = e1])
    apply (rule exI [where x = w1])
    apply (rule exI [where x = e2])
    apply (rule exI [where x = w2])
    apply (intro conjI)
           apply (rule r1)
          apply (rule r2)
         apply (rule l1)
        apply (rule l2)
       apply (rule noinv)
      apply (rule calls)
     apply (rule res)
    apply (rule lines)
    done
qed

theorem batch_update_partial_failure_witness:
  "handleBatchUpdateWorkItems mockConfig mockClient (mockUnmarshal mockBatch)
     [''updates'' \<mapsto> JString ''[]''] (100, [])
   = (Inr (ToolResultText
        (''Updated work item #3'' @ [CHR 0x0A] @ ''Invalid field for #4: Status'' @ [CHR 0x0A]
           @ ''Failed to update #500: work item not found'' @ [CHR 0x0A]
           @ ''Updated work item #5'')),
      (100,
       [UpdateWorkItemCall 3 ''Apollo''
          [\<lparr>Op = OpReplace, Path = ''/fields/System.State'', Value = JString ''Closed''\<rparr>],
        UpdateWorkItemCall 500 ''Apollo''
          [\<lparr>Op = OpReplace, Path = ''/fields/System.Title'', Value = JString ''Gone''\<rparr>],
        UpdateWorkItemCall 5 ''Apollo''
          [\<lparr>Op = OpReplace, Path = ''/fields/Microsoft.VSTS.Common.Priority'',
            Value = JString ''2''\<rparr>]]))
   \<and> length (Split
        (''Updated work item #3'' @ [CHR 0x0A] @ ''Invalid field for #4: Status'' @ [CHR 0x0A]
           @ ''Failed to update #500: work item not found'' @ [CHR 0x0A]
           @ ''Updated work item #5'') [CHR 0x0A]) = 4"
proof -
  let ?text = "''Updated work item #3'' @ [CHR 0x0A] @ ''Invalid field for #4: Status'' @ [CHR 0x0A]
           @ ''Failed to update #500: work item not found'' @ [CHR 0x0A]
           @ ''Updated work item #5''"
  let ?u = "\<lparr>Update_ID = 4, Update_Field = ''Status'', Update_Value = ''Done''\<rparr>"
  let ?xs = "[\<lparr>Update_ID = 3, Update_Field = ''State'', Update_Value = ''Closed''\<rparr>]"
  let ?ys = "[\<lparr>Update_ID = 500, Update_Field = ''Title'', Update_Value = ''Gone''\<rparr>,
              \<lparr>Update_ID = 5, Update_Field = ''Priority'', Update_Value = ''2''\<rparr>]"
  have ev: "handleBatchUpdateWorkItems mockConfig mockClient (mockUnmarshal mockBatch)
     [''updates'' \<mapsto> JString ''[]''] (100, [])
   = (Inr (ToolResultText ?text),
      (100,
       [UpdateWorkItemCall 3 ''Apollo''
          [\<lparr>Op = OpReplace, Path = ''/fields/System.State'', Value = JString ''Closed''\<rparr>],
        UpdateWorkItemCall 500 ''Apollo''
          [\<lparr>Op = OpReplace, Path = ''/fields/System.Title'', Value = JString ''Gone''\<rparr>],
        UpdateWorkItemCall 5 ''Apollo''
          [\<lparr>Op = OpReplace, Path = ''/fields/Microsoft.VSTS.Common.Priority'',
            Value = JString ''2''\<rparr>]]))"
    by code_simp
  have ids: "\<forall>i project document st r st'.
               UpdateWorkItem mockClient i project document st = (Inr r, st')
               \<longrightarrow> WorkItem_Id r \<noteq> None"
    by (auto simp: mockClient_def split: if_splits)
  have errs: "\<forall>i project document st err st'.
               UpdateWorkItem mockClient i project document st = (Inl err, st')
               \<longrightarrow> CHR 0x0A \<notin> set err"
    by (auto simp: mockClient_def split: if_splits)
  have arg: "[''updates'' \<mapsto> JString ''[]''] ''updates'' = Some (JString ''[]'')"
    by simp
  have batch: "mockUnmarshal mockBatch ''[]'' = Inr (?xs @ ?u # ?ys)"
    by (simp add: mockUnmarshal_def mockBatch_def)
  have invalid: "fieldMap (Update_Field ?u) = None"
    by (simp add: fieldMap_def)
  have others: "\<forall>x\<in>set (?xs @ ?ys). fieldMap (Update_Field x) \<noteq> None"
    by (simp add: fieldMap_def)
  have field: "CHR 0x0A \<notin> set (Update_Field ?u)"
    by simp
  from batch_update_partial_failure
         [where client = mockClient and args = "[''updates'' \<mapsto> JString ''[]'']"
            and updatesJSON = "''[]''" and unmarshal = "mockUnmarshal mockBatch"
            and xs = "?xs" and u = "?u" and ys = "?ys" and config = mockConfig
            and w = "(100, [])",
          OF ids arg batch invalid others]
  obtain e1 w1 e2 w2 where
    r1: "batchUpdateLoop mockConfig mockClient ?xs [] (100, []) = (Inr e1, w1)"
    and l1: "length e1 = length ?xs" and l2: "length e2 = length ?ys"
    and res: "handleBatchUpdateWorkItems mockConfig mockClient (mockUnmarshal mockBatch)
                [''updates'' \<mapsto> JString ''[]''] (100, [])
              = (Inr (ToolResultText
                   (Join (e1 @ [''Invalid field for #'' @ Itoa (Update_ID ?u) @ '': ''
                                  @ Update_Field ?u] @ e2) [CHR 0x0A])), w2)"
    and lines: "CHR 0x0A \<notin> set (Update_Field ?u)
              \<and> (\<forall>i project document st err st'.
                    UpdateWorkItem mockClient i project document st = (Inl err, st')
                    \<longrightarrow> CHR 0x0A \<notin> set err)
            \<longrightarrow> Split (Join (e1 @ [''Invalid field for #'' @ Itoa (Update_ID ?u) @ '': ''
                                      @ Update_Field ?u] @ e2) [CHR 0x0A]) [CHR 0x0A]
                  = e1 @ [''Invalid field for #'' @ Itoa (Update_ID ?u) @ '': ''
                            @ Update_Field ?u] @ e2"
    by blast
  have joined: "Join (e1 @ [''Invalid field for #'' @ Itoa (Update_ID ?u) @ '': ''
                            @ Update_Field ?u] @ e2) [CHR 0x0A] = ?text"
    using res ev by simp
  have "Split (Join (e1 @ [''Invalid field for #'' @ Itoa (Update_ID ?u) @ '': ''
                                      @ Update_Field ?u] @ e2) [CHR 0x0A]) [CHR 0x0A]
                  = e1 @ [''Invalid field for #'' @ Itoa (Update_ID ?u) @ '': ''
                            @ Update_Field ?u] @ e2"
    using lines field errs by blast
  then have "length (Split (Join (e1 @ [''Invalid field for #'' @ Itoa (Update_ID ?u) @ '': ''
                                      @ Update_Field ?u] @ e2) [CHR 0x0A]) [CHR 0x0A]) = 4"
    using l1 l2 by simp
  then have "length (Split ?text [CHR 0x0A]) = 4"
    unfolding joined .
  with ev show ?thesis by blast
qed

text \<open>
  Claim C5 as stated counts lines. The handler copies the unknown field name into its entry,
  so a batch of one update whose field name holds a line feed gives a text of two lines.
\<close>

theorem batch_update_lines_counterexample:
  "handleBatchUpdateWorkItems mockConfig mockClient
     (mockUnmarshal
        [\<lparr>Update_ID = 7, Update_Field = ''Sta'' @ [CHR 0x0A] @ ''te'', Update_Value = ''Closed''\<rparr>])
     [''updates'' \<mapsto> JString ''[]''] (100, [])
   = (Inr (ToolResultText (''Invalid field for #7: Sta'' @ [CHR 0x0A] @ ''te'')), (100, []))
   \<and> Split (''Invalid field for #7: Sta'' @ [CHR 0x0A] @ ''te'') [CHR 0x0A]
       = [''Invalid field for #7: Sta'', ''te'']"
  by code_simp

end
